theory Spec2Isabelle
  imports Complex_Main "HOL-Library.Log_Nat"
begin

section \<open>Numbers\<close>

text \<open>
  The game engine (\<^verbatim>\<open>gameEngine.js\<close>) and the ledger functions of \<^verbatim>\<open>auth.js\<close> compute
  with JavaScript numbers, which are IEEE doubles. A number is modelled by the real number
  it denotes. \<open>to_double x\<close> is the double nearest to \<open>x\<close>: 53 significant bits, a tie
  going to the even one, the smallest exponent that of the subnormal numbers. An operation
  of the prize engine is the exact operation followed by \<open>to_double\<close>, and a decimal
  literal is the double nearest to it. Overflow to an infinity and \<^verbatim>\<open>NaN\<close> are outside
  the model.

  \<open>binade a\<close> is the exponent \<open>e\<close> with \<open>2 ^ e \<le> a < 2 ^ (e + 1)\<close>, for a positive \<open>a\<close>.
\<close>

definition binade :: "real \<Rightarrow> int" where
  "binade a = (if 1 \<le> a then bitlen \<lfloor>a\<rfloor> - 1 else - bitlen (\<lceil>1 / a\<rceil> - 1))"

definition round_ties_even :: "real \<Rightarrow> int" where
  "round_ties_even q =
     (let n = \<lfloor>q\<rfloor>; d = q - real_of_int n
      in if d < 1 / 2 then n
         else if d > 1 / 2 then n + 1
         else if even n then n else n + 1)"

definition pow2 :: "int \<Rightarrow> real" where
  "pow2 k = (if 0 \<le> k then 2 ^ nat k else 1 / 2 ^ nat (- k))"

definition to_double :: "real \<Rightarrow> real" where
  "to_double x =
     (if x = 0 then 0
      else let a = \<bar>x\<bar>;
               ulp = pow2 (max (binade a) (- 1022) - 52);
               m = real_of_int (round_ties_even (a / ulp)) * ulp
           in if x < 0 then - m else m)"

text \<open>
  The amounts of the ledger are decimal values with two digits after the point: what a
  \<^verbatim>\<open>DECIMAL(12,2)\<close> column holds, what \<^verbatim>\<open>toFixed(2)\<close> prints, a whole number of cents
  divided by 100. Such a value and the double nearest to it print as, are stored as and are
  read back as the same decimal, and the model keeps the decimal value. The sums that
  settle a round are formed exactly; the store rounds what it is given to the cent.

  \<^verbatim>\<open>Math.random()\<close> is an argument \<open>random\<close> of the functions that draw, so that a
  round is a function of its draw.
\<close>

definition ALLOWED_BETS :: "real list" where
  "ALLOWED_BETS = [0.50, 1.00, 1.50, 2.00, 3.00, 5.00, 10.00, 15.00, 20.00, 25.00,
                   30.00, 35.00, 40.00, 45.00, 50.00]"

text \<open>\<^verbatim>\<open>Math.round(x)\<close>: the nearest integer, a tie going towards plus infinity.\<close>

definition Math_round :: "real \<Rightarrow> real" where
  "Math_round x = real_of_int \<lfloor>x + 1 / 2\<rfloor>"

text \<open>
  \<^verbatim>\<open>parseFloat(x.toFixed(2))\<close>: \<^verbatim>\<open>toFixed\<close> takes the sign off, prints a magnitude of
  \<open>10\<^sup>2\<^sup>1\<close> or more as it is and a smaller one with two digits after the point (the
  nearest such value, the larger one on a tie), and puts the sign back.
\<close>

definition toFixed_2 :: "real \<Rightarrow> real" where
  "toFixed_2 x =
     (let a = (if x < 0 then - x else x);
          m = (if a \<ge> 10 ^ 21 then a else real_of_int \<lfloor>a * 100 + 1 / 2\<rfloor> / 100)
      in if x < 0 then - m else m)"

section \<open>The prize engine\<close>

text \<open>
  \<^verbatim>\<open>calculateScratchPrize(betAmount, rtpPercentage)\<close>; the result is the pair
  \<open>(multiplier, prizeAmount)\<close>. Every product, sum and quotient is rounded to a double,
  up to the argument of \<^verbatim>\<open>Math.round\<close>; the prize is then that whole number of cents.
\<close>

definition calculateScratchPrize :: "real \<Rightarrow> real \<Rightarrow> real \<Rightarrow> real \<times> real" where
  "calculateScratchPrize random betAmount rtpPercentage =
     (let bonusChance =
            (if betAmount \<ge> 50 then to_double 0.15
             else if betAmount \<ge> 30 then to_double 0.12
             else if betAmount \<ge> 20 then to_double 0.09
             else if betAmount \<ge> 10 then to_double 0.06
             else if betAmount \<ge> 5 then to_double 0.03
             else 0);
          threshold1 = to_double (to_double 0.02 + to_double (bonusChance * to_double 0.15));
          threshold2 = to_double (to_double 0.07 + to_double (bonusChance * to_double 0.30));
          threshold3 = to_double (to_double 0.22 + to_double (bonusChance * to_double 0.40));
          threshold4 = to_double (to_double 0.50 + to_double (bonusChance * to_double 0.15));
          multiplier =
            (if random < threshold1 then 10
             else if random < threshold2 then 5
             else if random < threshold3 then 2
             else if random < threshold4 then 1
             else 0);
          rtpFactor = to_double (rtpPercentage / 95.0);
          adjustedMultiplier = to_double (multiplier * rtpFactor);
          prizeAmount = to_double (betAmount * adjustedMultiplier)
      in (adjustedMultiplier, Math_round (to_double (prizeAmount * 100)) / 100))"

subsection \<open>The prize engine as the specification words it\<close>

text \<open>
  The specification gives the bonus chance as a step function over ascending intervals of
  the bet, the thresholds from a base table and weights, the base multiplier by half-open
  bands of the draw, and the prize as the product rounded half-up to two decimal places.
  The constants and the operations are those of the program's numbers, doubles.
\<close>

definition bonusChance_spec :: "real \<Rightarrow> real" where
  "bonusChance_spec betAmount =
     (if betAmount < 5 then 0
      else if 5 \<le> betAmount \<and> betAmount < 10 then to_double 0.03
      else if 10 \<le> betAmount \<and> betAmount < 20 then to_double 0.06
      else if 20 \<le> betAmount \<and> betAmount < 30 then to_double 0.09
      else if 30 \<le> betAmount \<and> betAmount < 50 then to_double 0.12
      else to_double 0.15)"

definition threshold_spec :: "real \<Rightarrow> real \<Rightarrow> real \<Rightarrow> real" where
  "threshold_spec base weight bonus =
     to_double (to_double base + to_double (bonus * to_double weight))"

definition baseMultiplier_spec :: "real \<Rightarrow> real \<Rightarrow> real \<Rightarrow> real \<Rightarrow> real \<Rightarrow> real" where
  "baseMultiplier_spec r t1 t2 t3 t4 =
     (if r < t1 then 10
      else if t1 \<le> r \<and> r < t2 then 5
      else if t2 \<le> r \<and> r < t3 then 2
      else if t3 \<le> r \<and> r < t4 then 1
      else 0)"

text \<open>Half-up rounding to two decimal places, of an exact value.\<close>

definition round2_spec :: "real \<Rightarrow> real" where
  "round2_spec x = real_of_int \<lfloor>x * 100 + 1 / 2\<rfloor> / 100"

text \<open>The same rounding of a double, the way a double is scaled: its product with 100 is
  a double again.\<close>

definition round2_double :: "real \<Rightarrow> real" where
  "round2_double x = real_of_int \<lfloor>to_double (x * 100) + 1 / 2\<rfloor> / 100"

definition computePrize_spec :: "real \<Rightarrow> real \<Rightarrow> real \<Rightarrow> real \<times> real" where
  "computePrize_spec r betAmount rtpPercentage =
     (let t1 = threshold_spec 0.02 0.15 (bonusChance_spec betAmount);
          t2 = threshold_spec 0.07 0.30 (bonusChance_spec betAmount);
          t3 = threshold_spec 0.22 0.40 (bonusChance_spec betAmount);
          t4 = threshold_spec 0.50 0.15 (bonusChance_spec betAmount);
          adjustedMultiplier =
            to_double (baseMultiplier_spec r t1 t2 t3 t4 * to_double (rtpPercentage / 95.0))
      in (adjustedMultiplier, round2_double (to_double (betAmount * adjustedMultiplier))))"

section \<open>The ledger store\<close>

text \<open>
  The tables of \<^verbatim>\<open>initDatabase\<close> that the two operations touch. A row of \<^verbatim>\<open>users\<close> keeps
  the three ledger columns; \<^verbatim>\<open>users.id\<close> is the primary key, so the table is a map from
  ids. \<^verbatim>\<open>game_rounds\<close> is append-only and kept in insertion order. \<^verbatim>\<open>settings\<close> maps a
  key to its text value. Only the columns that the two operations read or write are kept
  (ids of rounds and time stamps are not).
\<close>

type_synonym uuid = string

record user_row =
  balance :: real
  rollover_required :: real
  first_deposit_made :: bool

record game_round =
  user_id :: uuid
  game_type :: string
  bet_amount :: real
  prize_amount :: real
  multiplier :: real
  result_data :: real

record db =
  users :: "uuid \<rightharpoonup> user_row"
  game_rounds :: "game_round list"
  settings :: "string \<rightharpoonup> string"

text \<open>
  \<^verbatim>\<open>users.balance\<close>, \<^verbatim>\<open>users.rollover_required\<close>, \<^verbatim>\<open>game_rounds.bet_amount\<close> and
  \<^verbatim>\<open>game_rounds.prize_amount\<close> are \<^verbatim>\<open>DECIMAL(12,2)\<close> and \<^verbatim>\<open>game_rounds.multiplier\<close> is
  \<^verbatim>\<open>DECIMAL(6,2)\<close>. The driver passes a number as its text, the shortest decimal that
  reads back as the same double, and the column keeps that decimal rounded to two digits
  after the point, a tie going away from zero. So the number goes to the multiple of 0.01
  below it in magnitude, or to the next one when it has reached the half cent between them
  or is so near below it that the half cent is its text, which is when the two are the same
  double. \<^verbatim>\<open>result_data\<close> is JSON and keeps the number as it is. Reading a column back
  (\<^verbatim>\<open>parseFloat\<close> of the text the driver returns) gives the decimal value it holds.
\<close>

definition decimal_2 :: "real \<Rightarrow> real" where
  "decimal_2 x =
     (let a = \<bar>x\<bar>;
          k = \<lfloor>a * 100\<rfloor>;
          tie = (real_of_int k + 1 / 2) / 100;
          m = (if tie \<le> a \<or> to_double tie = to_double a
               then real_of_int (k + 1) / 100
               else real_of_int k / 100)
      in if x < 0 then - m else m)"

text \<open>
  The values that a \<^verbatim>\<open>DECIMAL(12,2)\<close> column holds: the multiples of 0.01 below
  \<open>10 ^ 10\<close> in magnitude. A statement that is given a larger value throws.
\<close>

definition is_decimal_12_2 :: "real \<Rightarrow> bool" where
  "is_decimal_12_2 x \<longleftrightarrow> real_of_int \<lfloor>x * 100\<rfloor> = x * 100 \<and> \<bar>x\<bar> < 10 ^ 10"

text \<open>The row of \<^verbatim>\<open>game_rounds\<close> that the store keeps of the values inserted.\<close>

definition stored_round :: "game_round \<Rightarrow> game_round" where
  "stored_round r = r\<lparr>bet_amount := decimal_2 (bet_amount r),
                      prize_amount := decimal_2 (prize_amount r),
                      multiplier := decimal_2 (multiplier r)\<rparr>"

text \<open>
  The statements a call sends to the store, with the values it passes, in the order it
  sends them; the last one of a failing call is the one that failed, followed by the
  \<^verbatim>\<open>ROLLBACK\<close> of the handler.
\<close>

datatype query =
    CONNECT
  | BEGIN
  | SELECT_USER_FOR_UPDATE uuid
  | SELECT_SETTING string
  | UPDATE_USER uuid real real
  | UPDATE_FIRST_DEPOSIT uuid real
  | INSERT_GAME_ROUND game_round
  | COMMIT
  | ROLLBACK
  | RELEASE

text \<open>
  Any statement may throw (a lost connection, a violated \<^verbatim>\<open>CHECK\<close> constraint, a value
  too large for its column). The argument \<open>fault\<close> of an operation names the step that
  throws in this call, if one does.
\<close>

datatype step = AtConnect | AtBegin | AtSelect | AtGetSetting | AtUpdate | AtInsert | AtCommit

datatype error = InvalidBet | NotFound | InsufficientFunds | StorageFailure

text \<open>\<^verbatim>\<open>getSetting(key)\<close>: \<^verbatim>\<open>result.rows[0]?.value || null\<close>, so a missing row and an
  empty value both give \<^verbatim>\<open>null\<close>.\<close>

definition getSetting :: "db \<Rightarrow> string \<Rightarrow> string option" where
  "getSetting s key =
     (case settings s key of
        None \<Rightarrow> None
      | Some v \<Rightarrow> if v = [] then None else Some v)"

section \<open>Round settlement\<close>

text \<open>The object \<^verbatim>\<open>playScratchCard\<close> returns.\<close>

record play_result =
  res_success :: bool
  res_prize :: real
  res_finalBalance :: real
  res_multiplier :: real
  res_betAmount :: real

text \<open>
  Lines 96 and 97 of \<^verbatim>\<open>playScratchCard\<close>: the configured RTP, or 95.0 when the lookup
  gives \<^verbatim>\<open>null\<close>. \<^verbatim>\<open>parseFloat\<close> on the settings text is an argument.
\<close>

definition configuredRtp :: "(string \<Rightarrow> real) \<Rightarrow> db \<Rightarrow> real" where
  "configuredRtp parseFloat s =
     (case getSetting s ''rtp_percentage'' of
        Some rtpString \<Rightarrow> parseFloat rtpString
      | None \<Rightarrow> 95.0)"

text \<open>
  The body of the \<^verbatim>\<open>try\<close> block: the result or the error thrown, the state the
  transaction would commit, and the statements sent. The \<^verbatim>\<open>UPDATE\<close> and the \<^verbatim>\<open>INSERT\<close>
  pass the numbers as computed; the rows keep them as their columns round them. The
  balance and the rollover read are the decimal values of their columns, and
  \<^verbatim>\<open>currentBalance - betAmount + prizeAmount\<close> and \<^verbatim>\<open>currentRollover - betAmount\<close> are
  formed from them without rounding error; the prize is the decimal with two digits that
  the engine's double writes. The rounding error of the program's double sums, smaller
  than a thousandth of a cent for amounts of the columns, is left out.
\<close>

definition scratchTransaction ::
  "(string \<Rightarrow> real) \<Rightarrow> real \<Rightarrow> step option \<Rightarrow> db \<Rightarrow> uuid \<Rightarrow> real
    \<Rightarrow> (error + play_result \<times> db) \<times> query list" where
  "scratchTransaction parseFloat random fault s userId betAmount =
     (if fault = Some AtBegin then (Inl StorageFailure, [BEGIN])
      else if fault = Some AtSelect
        then (Inl StorageFailure, [BEGIN, SELECT_USER_FOR_UPDATE userId])
      else case users s userId of
        None \<Rightarrow> (Inl NotFound, [BEGIN, SELECT_USER_FOR_UPDATE userId])
      | Some user \<Rightarrow>
          let currentBalance = balance user in
          if currentBalance < betAmount
            then (Inl InsufficientFunds, [BEGIN, SELECT_USER_FOR_UPDATE userId])
          else if fault = Some AtGetSetting
            then (Inl StorageFailure,
                  [BEGIN, SELECT_USER_FOR_UPDATE userId, SELECT_SETTING ''rtp_percentage''])
          else
            let rtpPercentage = configuredRtp parseFloat s;
                (multiplier, prizeAmount) =
                  calculateScratchPrize random betAmount rtpPercentage;
                newBalance = currentBalance - betAmount + prizeAmount;
                currentRollover = rollover_required user;
                newRollover = max 0 (currentRollover - betAmount);
                round = \<lparr>user_id = userId, game_type = ''scratch_card'',
                         bet_amount = betAmount, prize_amount = prizeAmount,
                         multiplier = multiplier, result_data = rtpPercentage\<rparr>;
                sent = [BEGIN, SELECT_USER_FOR_UPDATE userId,
                        SELECT_SETTING ''rtp_percentage'',
                        UPDATE_USER userId newBalance newRollover]
            in
              if fault = Some AtUpdate then (Inl StorageFailure, sent)
              else if fault = Some AtInsert
                then (Inl StorageFailure, sent @ [INSERT_GAME_ROUND round])
              else if fault = Some AtCommit
                then (Inl StorageFailure, sent @ [INSERT_GAME_ROUND round, COMMIT])
              else
                (Inr (\<lparr>res_success = True, res_prize = prizeAmount,
                        res_finalBalance = newBalance, res_multiplier = multiplier,
                        res_betAmount = betAmount\<rparr>,
                      s\<lparr>users := (users s)(userId \<mapsto>
                                   user\<lparr>balance := decimal_2 newBalance,
                                        rollover_required := decimal_2 newRollover\<rparr>),
                        game_rounds := game_rounds s @ [stored_round round]\<rparr>),
                 sent @ [INSERT_GAME_ROUND round, COMMIT]))"

text \<open>
  \<^verbatim>\<open>playScratchCard(userId, betAmount)\<close>: the result or the error thrown, the committed
  state after the call, and the statements sent. The bet is checked before a connection is
  taken; \<^verbatim>\<open>pool.connect()\<close> is outside the \<^verbatim>\<open>try\<close>; an error inside it is followed by
  \<^verbatim>\<open>ROLLBACK\<close>, which leaves the committed state as it was.
\<close>

definition playScratchCard ::
  "(string \<Rightarrow> real) \<Rightarrow> real \<Rightarrow> step option \<Rightarrow> db \<Rightarrow> uuid \<Rightarrow> real
    \<Rightarrow> (error + play_result) \<times> db \<times> query list" where
  "playScratchCard parseFloat random fault s userId betAmount =
     (if toFixed_2 betAmount \<notin> set ALLOWED_BETS then (Inl InvalidBet, s, [])
      else if fault = Some AtConnect then (Inl StorageFailure, s, [CONNECT])
      else case scratchTransaction parseFloat random fault s userId betAmount of
        (Inl e, sent) \<Rightarrow> (Inl e, s, CONNECT # sent @ [ROLLBACK, RELEASE])
      | (Inr (res, s'), sent) \<Rightarrow> (Inr res, s', CONNECT # sent @ [RELEASE]))"

section \<open>Rollover activation\<close>

text \<open>
  \<^verbatim>\<open>applyFirstDepositRollover(userId, amount)\<close> of \<^verbatim>\<open>auth.js\<close>. The conditional
  \<^verbatim>\<open>UPDATE\<close> changes the row of \<open>userId\<close> when it exists with
  \<^verbatim>\<open>first_deposit_made = false\<close> and returns the rows it changed. The store forms the
  sum \<^verbatim>\<open>rollover_required + $1\<close> itself, in decimal arithmetic, from the column and
  the amount of the deposit, itself a \<^verbatim>\<open>DECIMAL(12,2)\<close> amount of \<^verbatim>\<open>transactions\<close>; the
  row keeps the sum.
\<close>

definition firstDepositUpdate :: "db \<Rightarrow> uuid \<Rightarrow> real \<Rightarrow> user_row list \<times> db" where
  "firstDepositUpdate s userId amount =
     (case users s userId of
        None \<Rightarrow> ([], s)
      | Some user \<Rightarrow>
          if first_deposit_made user = False then
            (let row = user\<lparr>rollover_required := rollover_required user + amount,
                             first_deposit_made := True\<rparr>
             in ([row], s\<lparr>users := (users s)(userId \<mapsto> row)\<rparr>))
          else ([], s))"

definition applyFirstDepositRollover ::
  "step option \<Rightarrow> db \<Rightarrow> uuid \<Rightarrow> real \<Rightarrow> (error + bool) \<times> db \<times> query list" where
  "applyFirstDepositRollover fault s userId amount =
     (if fault = Some AtConnect then (Inl StorageFailure, s, [CONNECT])
      else if fault = Some AtBegin
        then (Inl StorageFailure, s, [CONNECT, BEGIN, ROLLBACK, RELEASE])
      else if fault = Some AtUpdate
        then (Inl StorageFailure, s,
              [CONNECT, BEGIN, UPDATE_FIRST_DEPOSIT userId amount, ROLLBACK, RELEASE])
      else
        let (rows, s') = firstDepositUpdate s userId amount in
        if fault = Some AtCommit
          then (Inl StorageFailure, s,
                [CONNECT, BEGIN, UPDATE_FIRST_DEPOSIT userId amount, COMMIT, ROLLBACK, RELEASE])
        else (Inr (length rows > 0), s',
              [CONNECT, BEGIN, UPDATE_FIRST_DEPOSIT userId amount, COMMIT, RELEASE]))"

section \<open>Example ledger\<close>

text \<open>
  An instance of the \<open>parseFloat\<close> argument for the examples: the number that the leading
  decimal digits of the text write. It is \<^verbatim>\<open>parseFloat\<close> on a text of digits only.
\<close>

definition parseFloat_digits :: "string \<Rightarrow> real" where
  "parseFloat_digits str =
     real (foldl (\<lambda>n c. 10 * n + (of_char c - 48)) 0
             (takeWhile (\<lambda>c. 48 \<le> (of_char c :: nat) \<and> (of_char c :: nat) \<le> 57) str))"

text \<open>
  Two users and an RTP of 90: \<open>alice\<close> after a first deposit of 500.00, \<open>bob\<close> with
  1.00 and no deposit yet. No user \<open>carol\<close> exists. The draws and the bets of the
  examples are doubles: 0.25, 0.015625 and the bet 0.50390625, which is off the grid of
  cents and rounds to the allowed 0.50.
\<close>

definition alice :: user_row where
  "alice = \<lparr>balance = 500, rollover_required = 500, first_deposit_made = True\<rparr>"

definition bob :: user_row where
  "bob = \<lparr>balance = 1, rollover_required = 0, first_deposit_made = False\<rparr>"

definition example_db :: db where
  "example_db = \<lparr>users = [''alice'' \<mapsto> alice, ''bob'' \<mapsto> bob], game_rounds = [],
                  settings = [''rtp_percentage'' \<mapsto> ''90'']\<rparr>"

section \<open>Properties of the numbers\<close>

lemma pow2_pos: "0 < pow2 k"
  by (simp add: pow2_def)

lemma pow2_powr: "pow2 k = 2 powr real_of_int k"
proof (cases "0 \<le> k")
  case True
  then have "2 powr real_of_int k = 2 powr real (nat k)" by simp
  also have "\<dots> = 2 ^ nat k" by (rule powr_realpow) simp
  finally show ?thesis using True by (simp add: pow2_def)
next
  case False
  then have "2 powr real_of_int k = 2 powr (- real (nat (- k)))" by simp
  also have "\<dots> = 1 / 2 powr real (nat (- k))" by (simp add: powr_minus divide_inverse)
  also have "2 powr real (nat (- k)) = 2 ^ nat (- k)" by (rule powr_realpow) simp
  finally show ?thesis using False by (simp add: pow2_def)
qed

lemma pow2_mono: "i \<le> j \<Longrightarrow> pow2 i \<le> pow2 j"
  by (simp add: pow2_powr)

lemma pow2_less_imp: "pow2 i < pow2 j \<Longrightarrow> i < j"
  by (simp add: pow2_powr)

lemma binade_lower:
  assumes "0 < a"
  shows "pow2 (binade a) \<le> a"
proof (cases "1 \<le> a")
  case True
  define n where "n = \<lfloor>a\<rfloor>"
  have n: "0 < n" using True by (simp add: n_def)
  then have b: "1 \<le> bitlen n" by (simp add: bitlen_alt_def)
  have "2 ^ nat (bitlen n - 1) \<le> n" using bitlen_bounds [OF n] by simp
  then have "(2::real) ^ nat (bitlen n - 1) \<le> real_of_int n"
    by (metis of_int_le_iff of_int_numeral of_int_power)
  also have "\<dots> \<le> a" by (simp add: n_def)
  finally show ?thesis using True b by (simp add: binade_def pow2_def n_def)
next
  case False
  define N where "N = \<lceil>1 / a\<rceil>"
  have "1 < 1 / a" using False assms by simp
  then have N: "0 < N - 1" unfolding N_def by linarith
  then have j: "1 \<le> bitlen (N - 1)" by (simp add: bitlen_alt_def)
  have "N - 1 < 2 ^ nat (bitlen (N - 1))" using bitlen_bounds [OF N] by simp
  then have "N \<le> 2 ^ nat (bitlen (N - 1))" by simp
  then have up: "real_of_int N \<le> 2 ^ nat (bitlen (N - 1))"
    by (metis of_int_le_iff of_int_numeral of_int_power)
  have "1 / a \<le> real_of_int N" by (simp add: N_def)
  also note up
  finally have "1 / a \<le> 2 ^ nat (bitlen (N - 1))" .
  then have "1 / 2 ^ nat (bitlen (N - 1)) \<le> a"
    using assms by (simp add: field_simps)
  then show ?thesis using False j by (simp add: binade_def pow2_def N_def)
qed

lemma round_ties_even_error: "\<bar>real_of_int (round_ties_even q) - q\<bar> \<le> 1 / 2"
  unfolding round_ties_even_def Let_def by (auto split: if_splits)

lemma to_double_error:
  assumes "0 < x" and "x < 2 ^ 44"
  shows "\<bar>to_double x - x\<bar> \<le> 1 / 1024"
proof -
  define ulp where "ulp = pow2 (max (binade x) (- 1022) - 52)"
  have "pow2 (binade x) \<le> x" using assms(1) by (rule binade_lower)
  also have "x < pow2 44" using assms(2) by (simp add: pow2_def)
  finally have "binade x < 44" by (rule pow2_less_imp)
  then have "max (binade x) (- 1022) - 52 \<le> - 9" by simp
  then have "ulp \<le> pow2 (- 9)" unfolding ulp_def by (rule pow2_mono)
  then have small: "ulp \<le> 1 / 512" by (simp add: pow2_def)
  have pos: "0 < ulp" unfolding ulp_def by (rule pow2_pos)
  have td: "to_double x = real_of_int (round_ties_even (x / ulp)) * ulp"
    using assms(1) by (simp add: to_double_def Let_def ulp_def)
  have "to_double x - x = (real_of_int (round_ties_even (x / ulp)) - x / ulp) * ulp"
    unfolding td using pos by (simp add: left_diff_distrib)
  then have "\<bar>to_double x - x\<bar> = \<bar>real_of_int (round_ties_even (x / ulp)) - x / ulp\<bar> * ulp"
    using pos by (simp add: abs_mult)
  also have "\<dots> \<le> 1 / 2 * ulp"
    using round_ties_even_error pos by (intro mult_right_mono) simp_all
  also have "\<dots> \<le> 1 / 1024" using small by simp
  finally show ?thesis .
qed

lemma round_ties_even_nonneg: "0 \<le> q \<Longrightarrow> 0 \<le> round_ties_even q"
  by (simp add: round_ties_even_def Let_def)

lemma to_double_nonneg:
  assumes "0 \<le> x"
  shows "0 \<le> to_double x"
proof (cases "x = 0")
  case True
  then show ?thesis by (simp add: to_double_def)
next
  case False
  define ulp where "ulp = pow2 (max (binade \<bar>x\<bar>) (- 1022) - 52)"
  have "0 < ulp" unfolding ulp_def by (rule pow2_pos)
  then have "0 \<le> \<bar>x\<bar> / ulp" by simp
  then have "0 \<le> real_of_int (round_ties_even (\<bar>x\<bar> / ulp)) * ulp"
    using \<open>0 < ulp\<close> round_ties_even_nonneg by (intro mult_nonneg_nonneg) simp_all
  then show ?thesis
    using assms False by (simp add: to_double_def Let_def ulp_def)
qed

lemma to_double_upper:
  assumes "0 \<le> x" and "x < 2 ^ 44"
  shows "to_double x \<le> x + 1 / 1024"
proof (cases "x = 0")
  case True
  then show ?thesis by (simp add: to_double_def)
next
  case False
  then have "0 < x" using assms(1) by simp
  then have "\<bar>to_double x - x\<bar> \<le> 1 / 1024" using assms(2) by (rule to_double_error)
  then have "to_double x - x \<le> 1 / 1024" by (rule abs_le_D1)
  then show ?thesis by linarith
qed

lemma to_double_lower:
  assumes "0 < x" and "x < 2 ^ 44"
  shows "x - 1 / 1024 \<le> to_double x"
proof -
  have "\<bar>to_double x - x\<bar> \<le> 1 / 1024" using assms by (rule to_double_error)
  then have "- (to_double x - x) \<le> 1 / 1024" by (rule abs_le_D2)
  then show ?thesis by linarith
qed

text \<open>A double is within half a unit in the last place of the number it rounds: within
  \<open>pow2 (- 53)\<close> of it, relatively, or within \<open>pow2 (- 1075)\<close> where doubles are
  subnormal.\<close>

lemma pow2_add: "pow2 (i + j) = pow2 i * pow2 j"
  by (simp add: pow2_powr powr_add)

lemma to_double_rel_error: "\<bar>to_double x - x\<bar> \<le> \<bar>x\<bar> * pow2 (- 53) + pow2 (- 1075)"
proof (cases "x = 0")
  case True
  then show ?thesis using pow2_pos [of "- 1075"] by (simp add: to_double_def)
next
  case False
  define a where "a = \<bar>x\<bar>"
  define ulp where "ulp = pow2 (max (binade a) (- 1022) - 52)"
  define m where "m = real_of_int (round_ties_even (a / ulp)) * ulp"
  have a: "0 < a" using False by (simp add: a_def)
  have pos: "0 < ulp" unfolding ulp_def by (rule pow2_pos)
  have td: "to_double x = (if x < 0 then - m else m)"
    using False by (simp add: to_double_def Let_def ulp_def a_def m_def)
  have "\<bar>to_double x - x\<bar> = \<bar>m - a\<bar>"
    unfolding td a_def by (simp add: abs_if)
  also have "m - a = (real_of_int (round_ties_even (a / ulp)) - a / ulp) * ulp"
    unfolding m_def using pos by (simp add: left_diff_distrib)
  also have "\<bar>\<dots>\<bar> = \<bar>real_of_int (round_ties_even (a / ulp)) - a / ulp\<bar> * ulp"
    using pos by (simp add: abs_mult)
  also have "\<dots> \<le> 1 / 2 * ulp"
    using round_ties_even_error pos by (intro mult_right_mono) simp_all
  finally have half: "\<bar>to_double x - x\<bar> \<le> 1 / 2 * ulp" .
  have two: "pow2 (- 52) = 2 * pow2 (- 53)" "pow2 (- 1074) = 2 * pow2 (- 1075)"
    using pow2_add [of 1 "- 53"] pow2_add [of 1 "- 1075"] by (simp_all add: pow2_def)
  have "ulp \<le> a * pow2 (- 52) + pow2 (- 1074)"
  proof (cases "- 1022 \<le> binade a")
    case True
    then have "ulp = pow2 (binade a + - 52)" by (simp add: ulp_def max_def)
    also have "\<dots> = pow2 (binade a) * pow2 (- 52)" by (rule pow2_add)
    also have "\<dots> \<le> a * pow2 (- 52)"
      using binade_lower [OF a] pow2_pos [of "- 52"] by (intro mult_right_mono) simp_all
    finally show ?thesis using pow2_pos [of "- 1074"] by simp
  next
    case False
    then have "ulp = pow2 (- 1074)" by (simp add: ulp_def max_def)
    then show ?thesis using a pow2_pos [of "- 52"] by simp
  qed
  then have "1 / 2 * ulp \<le> a * pow2 (- 53) + pow2 (- 1075)" unfolding two by simp
  with half show ?thesis unfolding a_def by simp
qed

lemma multiplier_error:
  assumes "0 \<le> b" and "b \<le> 10"
  shows "\<bar>to_double (b * to_double q) - b * q\<bar> \<le> 30 * (\<bar>q\<bar> * pow2 (- 53)) + 21 * pow2 (- 1075)"
proof -
  define e where "e = pow2 (- 53)"
  define d where "d = pow2 (- 1075)"
  define f where "f = to_double q"
  have e: "0 < e" "e \<le> 1" and d: "0 < d"
    using pow2_pos [of "- 53"] pow2_pos [of "- 1075"] pow2_mono [of "- 53" 0]
    by (simp_all add: e_def d_def pow2_def)
  have q: "\<bar>f - q\<bar> \<le> \<bar>q\<bar> * e + d" unfolding f_def e_def d_def by (rule to_double_rel_error)
  have "\<bar>q\<bar> * e \<le> \<bar>q\<bar> * 1" using e by (intro mult_left_mono) simp_all
  with q have f: "\<bar>f\<bar> \<le> 2 * \<bar>q\<bar> + d" by simp
  have "\<bar>f\<bar> * e \<le> (2 * \<bar>q\<bar> + d) * e" using f e by (intro mult_right_mono) simp_all
  also have "\<dots> = 2 * (\<bar>q\<bar> * e) + d * e" by (simp add: algebra_simps)
  also have "d * e \<le> d * 1" using e d by (intro mult_left_mono) simp_all
  finally have fe: "\<bar>f\<bar> * e \<le> 2 * (\<bar>q\<bar> * e) + d" by simp
  have "b * (\<bar>f\<bar> * e) \<le> 10 * (\<bar>f\<bar> * e)" using assms e by (intro mult_right_mono) simp_all
  with fe have bfe: "b * (\<bar>f\<bar> * e) \<le> 20 * (\<bar>q\<bar> * e) + 10 * d" by simp
  have "\<bar>to_double (b * f) - b * f\<bar> \<le> \<bar>b * f\<bar> * e + d"
    unfolding e_def d_def by (rule to_double_rel_error)
  also have "\<bar>b * f\<bar> * e = b * (\<bar>f\<bar> * e)" using assms by (simp add: abs_mult)
  finally have m: "\<bar>to_double (b * f) - b * f\<bar> \<le> 20 * (\<bar>q\<bar> * e) + 11 * d" using bfe by simp
  have "\<bar>b * f - b * q\<bar> = b * \<bar>f - q\<bar>"
    using assms by (simp add: right_diff_distrib [symmetric] abs_mult)
  also have "\<dots> \<le> 10 * \<bar>f - q\<bar>" using assms by (intro mult_right_mono) simp_all
  also have "\<dots> \<le> 10 * (\<bar>q\<bar> * e) + 10 * d" using q by simp
  finally have s: "\<bar>b * f - b * q\<bar> \<le> 10 * (\<bar>q\<bar> * e) + 10 * d" .
  have "\<bar>to_double (b * f) - b * q\<bar> \<le> \<bar>to_double (b * f) - b * f\<bar> + \<bar>b * f - b * q\<bar>"
    by simp
  with m s show ?thesis unfolding f_def e_def d_def by simp
qed

lemma multiplier_error_rtp:
  assumes "0 \<le> b" and "b \<le> 10"
  shows "\<bar>to_double (b * to_double (rtp / 95)) - b * (rtp / 95)\<bar>
           \<le> \<bar>rtp\<bar> * pow2 (- 54) + pow2 (- 1070)"
proof -
  have two: "pow2 (- 53) = 2 * pow2 (- 54)" "pow2 (- 1070) = 32 * pow2 (- 1075)"
    using pow2_add [of 1 "- 54"] pow2_add [of 5 "- 1075"] by (simp_all add: pow2_def)
  have "\<bar>to_double (b * to_double (rtp / 95)) - b * (rtp / 95)\<bar>
      \<le> 30 * (\<bar>rtp / 95\<bar> * pow2 (- 53)) + 21 * pow2 (- 1075)"
    using assms by (rule multiplier_error)
  also have "30 * (\<bar>rtp / 95\<bar> * pow2 (- 53)) = 60 / 95 * (\<bar>rtp\<bar> * pow2 (- 54))"
    unfolding two by simp
  also have "\<dots> \<le> 1 * (\<bar>rtp\<bar> * pow2 (- 54))"
    using pow2_pos [of "- 54"] by (intro mult_right_mono) simp_all
  also have "21 * pow2 (- 1075) \<le> pow2 (- 1070)"
    unfolding two using pow2_pos [of "- 1075"] by simp
  finally show ?thesis by simp
qed

lemma to_double_small_integers:
  "to_double 0 = 0" "to_double 1 = 1" "to_double 2 = 2" "to_double 5 = 5" "to_double 10 = 10"
  by code_simp+

section \<open>Properties of the prize engine\<close>

lemma bonusChance_chain:
  "(if betAmount \<ge> 50 then to_double 0.15
    else if betAmount \<ge> 30 then to_double 0.12
    else if betAmount \<ge> 20 then to_double 0.09
    else if betAmount \<ge> 10 then to_double 0.06
    else if betAmount \<ge> 5 then to_double 0.03
    else 0) = bonusChance_spec betAmount"
  unfolding bonusChance_spec_def by (simp only: not_le not_less split: if_split) linarith

lemma baseMultiplier_chain:
  "(if r < t1 then 10 else if r < t2 then 5 else if r < t3 then 2 else if r < t4 then 1 else 0)
   = baseMultiplier_spec r t1 t2 t3 t4"
  unfolding baseMultiplier_spec_def by auto

lemma calculateScratchPrize_spec:
  "calculateScratchPrize r betAmount rtpPercentage = computePrize_spec r betAmount rtpPercentage"
  unfolding calculateScratchPrize_def computePrize_spec_def Let_def
  by (simp only: bonusChance_chain baseMultiplier_chain Math_round_def round2_double_def
      threshold_spec_def)

lemma baseMultiplier_spec_cases: "baseMultiplier_spec r t1 t2 t3 t4 \<in> {0, 1, 2, 5, 10}"
  unfolding baseMultiplier_spec_def by simp

lemma baseMultiplier_spec_nonneg: "0 \<le> baseMultiplier_spec r t1 t2 t3 t4"
  unfolding baseMultiplier_spec_def by simp

lemma to_double_baseMultiplier:
  "to_double (baseMultiplier_spec r t1 t2 t3 t4) = baseMultiplier_spec r t1 t2 t3 t4"
  using baseMultiplier_spec_cases [of r t1 t2 t3 t4] to_double_small_integers by auto

text \<open>
  Claim C4, as amended. For every bet, RTP and draw, the engine returns what the specified
  algorithm returns when it is carried out in the program's double arithmetic: the bonus
  chance is the step function of the bet over the intervals below 5, [5,10), [10,20),
  [20,30), [30,50) and from 50 on; the thresholds are \<open>0.02 + bonus * 0.15\<close>,
  \<open>0.07 + bonus * 0.30\<close>, \<open>0.22 + bonus * 0.40\<close> and \<open>0.50 + bonus * 0.15\<close>, each
  product and sum a double; the base multiplier is 10, 5, 2, 1 or 0 by the half-open band
  the draw falls in; the multiplier is the double product of the base multiplier and the
  double quotient \<open>rtp / 95\<close>; and the prize is the double product of the bet and the
  multiplier, scaled by 100 to a double and rounded half-up to a whole number of cents.
\<close>

theorem calculateScratchPrize_follows_spec:
  "calculateScratchPrize r betAmount rtpPercentage =
     (let t1 = threshold_spec 0.02 0.15 (bonusChance_spec betAmount);
          t2 = threshold_spec 0.07 0.30 (bonusChance_spec betAmount);
          t3 = threshold_spec 0.22 0.40 (bonusChance_spec betAmount);
          t4 = threshold_spec 0.50 0.15 (bonusChance_spec betAmount);
          adjustedMultiplier =
            to_double (baseMultiplier_spec r t1 t2 t3 t4 * to_double (rtpPercentage / 95.0))
      in (adjustedMultiplier, round2_double (to_double (betAmount * adjustedMultiplier))))"
  using calculateScratchPrize_spec [of r betAmount rtpPercentage]
  by (simp only: computePrize_spec_def)

text \<open>
  The claim as first worded rounds the exact product half-up. For the allowed bet 1.50 at
  RTP 80.75 and a draw in the band of multiplier 1 the exact product is 1.275, which rounds
  half-up to 1.28; the double product is just below it, its scaling by 100 is just below
  127.5, and the engine returns 1.27.
\<close>

theorem prize_is_not_the_exact_product_rounded:
  "fst (calculateScratchPrize 0.25 1.5 95.0) = 1 \<and>
   snd (calculateScratchPrize 0.25 1.5 80.75) = 1.27 \<and>
   round2_spec (1.5 * (1 * (80.75 / 95.0))) = 1.28"
  by code_simp

lemma multiplier_at_95:
  "fst (calculateScratchPrize r betAmount 95) =
      baseMultiplier_spec r
        (threshold_spec 0.02 0.15 (bonusChance_spec betAmount))
        (threshold_spec 0.07 0.30 (bonusChance_spec betAmount))
        (threshold_spec 0.22 0.40 (bonusChance_spec betAmount))
        (threshold_spec 0.50 0.15 (bonusChance_spec betAmount))"
  by (simp add: calculateScratchPrize_spec computePrize_spec_def Let_def
      to_double_small_integers to_double_baseMultiplier)

text \<open>
  Claim C5. For the same draw, the multiplier at RTP 95.0 is one of 0, 1, 2, 5 and 10, and
  the multiplier at any RTP is the multiplier at 95.0 times \<open>rtp / 95.0\<close>, the product
  and the quotient being those of the program's numbers; it is within
  \<open>\<bar>rtp\<bar> * pow2 (- 54) + pow2 (- 1070)\<close> of the product and the quotient taken exactly,
  which is less than \<open>1 / 10 ^ 14\<close> for an RTP up to 100.
\<close>

theorem multiplier_scales_with_rtp:
  "fst (calculateScratchPrize r betAmount 95.0) \<in> {0, 1, 2, 5, 10} \<and>
   fst (calculateScratchPrize r betAmount rtp) =
     to_double (fst (calculateScratchPrize r betAmount 95.0) * to_double (rtp / 95.0)) \<and>
   \<bar>fst (calculateScratchPrize r betAmount rtp) -
      fst (calculateScratchPrize r betAmount 95.0) * (rtp / 95.0)\<bar>
     \<le> \<bar>rtp\<bar> * pow2 (- 54) + pow2 (- 1070)"
proof -
  define b where "b = fst (calculateScratchPrize r betAmount 95)"
  have cases: "b \<in> {0, 1, 2, 5, 10}"
    unfolding b_def multiplier_at_95 by (rule baseMultiplier_spec_cases)
  then have range: "0 \<le> b" "b \<le> 10" by auto
  have product: "fst (calculateScratchPrize r betAmount rtp) = to_double (b * to_double (rtp / 95))"
    unfolding b_def multiplier_at_95
    by (simp add: calculateScratchPrize_spec computePrize_spec_def Let_def)
  have "\<bar>to_double (b * to_double (rtp / 95)) - b * (rtp / 95)\<bar>
      \<le> \<bar>rtp\<bar> * pow2 (- 54) + pow2 (- 1070)"
    using range by (rule multiplier_error_rtp)
  then have "\<bar>fst (calculateScratchPrize r betAmount rtp) - b * (rtp / 95)\<bar>
      \<le> \<bar>rtp\<bar> * pow2 (- 54) + pow2 (- 1070)"
    unfolding product .
  with cases product show ?thesis unfolding b_def by simp
qed

section \<open>Properties of the bet check and of the columns\<close>

lemma allowed_bounds: "a \<in> set ALLOWED_BETS \<Longrightarrow> 1 / 2 \<le> a \<and> a \<le> 50"
  unfolding ALLOWED_BETS_def by auto

text \<open>The check of the source accepts the bets that round half-up to an allowed value.\<close>

lemma toFixed_2_allowed_iff:
  "toFixed_2 x \<in> set ALLOWED_BETS \<longleftrightarrow> round2_spec x \<in> set ALLOWED_BETS"
proof (cases "0 \<le> x \<and> x < 10 ^ 21")
  case True
  then show ?thesis by (simp add: toFixed_2_def round2_spec_def)
next
  case False
  then consider "x < 0" | "x \<ge> 10 ^ 21" by linarith
  then show ?thesis
  proof cases
    case 1
    have "toFixed_2 x \<le> 0" using 1 by (simp add: toFixed_2_def Let_def)
    moreover have "round2_spec x \<le> 0" using 1 by (simp add: round2_spec_def)
    ultimately show ?thesis using allowed_bounds by fastforce
  next
    case 2
    have "toFixed_2 x > 50" using 2 by (simp add: toFixed_2_def)
    moreover have "round2_spec x > 50" using 2 by (simp add: round2_spec_def)
    ultimately show ?thesis using allowed_bounds by fastforce
  qed
qed

text \<open>An accepted bet is at least 0.495.\<close>

lemma allowed_bet_lower_bound:
  assumes "toFixed_2 x \<in> set ALLOWED_BETS"
  shows "99 / 200 \<le> x"
proof (rule ccontr)
  assume "\<not> 99 / 200 \<le> x"
  then have "x * 100 + 1 / 2 < 50" by simp
  then have "\<lfloor>x * 100 + 1 / 2\<rfloor> < 50" by (simp add: floor_less_iff)
  then have "round2_spec x < 1 / 2" by (simp add: round2_spec_def)
  moreover have "1 / 2 \<le> round2_spec x"
    using assms allowed_bounds unfolding toFixed_2_allowed_iff by blast
  ultimately show False by simp
qed

lemma allowed_bet_positive:
  assumes "toFixed_2 x \<in> set ALLOWED_BETS"
  shows "0 < x"
  using allowed_bet_lower_bound [OF assms] by simp

lemma allowed_bet_upper:
  assumes "toFixed_2 x \<in> set ALLOWED_BETS"
  shows "x < 5001 / 100"
proof (rule ccontr)
  assume "\<not> x < 5001 / 100"
  then have "5001 + 1 / 2 \<le> x * 100 + 1 / 2" by simp
  then have "5001 \<le> \<lfloor>x * 100 + 1 / 2\<rfloor>" by (simp add: le_floor_iff)
  then have "5001 / 100 \<le> round2_spec x" by (simp add: round2_spec_def)
  moreover have "round2_spec x \<le> 50"
    using assms allowed_bounds unfolding toFixed_2_allowed_iff by blast
  ultimately show False by simp
qed

text \<open>What a column with two digits keeps: a multiple of 0.01, at most a cent away; a
  decimal value that the column can hold, as it is.\<close>

lemma decimal_2_grid: "\<exists>k. decimal_2 x = real_of_int k / 100"
proof -
  have "\<exists>k. (if c then - (if d then real_of_int (j + 1) / 100 else real_of_int j / 100)
      else (if d then real_of_int (j + 1) / 100 else real_of_int j / 100)) = real_of_int k / 100"
    for c d j
  proof (cases c; cases d)
    assume "c" "d"
    then show ?thesis by (intro exI [of _ "- (j + 1)"]) (simp add: add_divide_distrib)
  next
    assume "c" "\<not> d"
    then show ?thesis by (intro exI [of _ "- j"]) simp
  next
    assume "\<not> c" "d"
    then show ?thesis by (intro exI [of _ "j + 1"]) (simp add: add_divide_distrib)
  next
    assume "\<not> c" "\<not> d"
    then show ?thesis by (intro exI [of _ "j"]) simp
  qed
  then show ?thesis unfolding decimal_2_def Let_def .
qed

lemma decimal_2_nonneg: "0 \<le> x \<Longrightarrow> 0 \<le> decimal_2 x"
  by (simp add: decimal_2_def Let_def)

lemma decimal_2_upper:
  assumes "0 \<le> x"
  shows "decimal_2 x \<le> x + 1 / 100"
proof -
  have "decimal_2 x \<le> (real_of_int \<lfloor>x * 100\<rfloor> + 1) / 100"
    using assms by (simp add: decimal_2_def Let_def)
  also have "\<dots> \<le> x + 1 / 100" by (simp add: add_divide_distrib)
  finally show ?thesis .
qed

lemma decimal_2_cents:
  assumes "\<bar>real_of_int k / 100\<bar> < 10 ^ 10"
  shows "decimal_2 (real_of_int k / 100) = real_of_int k / 100"
proof -
  define a where "a = \<bar>real_of_int k / 100\<bar>"
  define tie where "tie = (real_of_int \<lfloor>a * 100\<rfloor> + 1 / 2) / 100"
  have a100: "a * 100 = real_of_int \<bar>k\<bar>" by (simp add: a_def)
  have fl: "\<lfloor>a * 100\<rfloor> = \<bar>k\<bar>" by (simp only: a100 floor_of_int)
  have tie: "tie = a + 1 / 200" unfolding tie_def fl using a100 by simp
  have a0: "0 \<le> a" by (simp add: a_def)
  have small: "a < 2 ^ 44" "tie < 2 ^ 44" "0 < tie"
    using assms a0 unfolding tie a_def by simp_all
  have "to_double a \<le> a + 1 / 1024" using a0 small(1) by (rule to_double_upper)
  moreover have "tie - 1 / 1024 \<le> to_double tie" using small(3) small(2) by (rule to_double_lower)
  ultimately have ne: "to_double tie \<noteq> to_double a" unfolding tie by simp
  have nle: "\<not> tie \<le> a" unfolding tie by simp
  have "decimal_2 (real_of_int k / 100) =
      (if real_of_int k / 100 < 0 then - (real_of_int \<bar>k\<bar> / 100) else real_of_int \<bar>k\<bar> / 100)"
    unfolding decimal_2_def Let_def a_def [symmetric] tie_def [symmetric]
    using ne nle by (simp add: fl)
  then show ?thesis by (simp add: abs_if)
qed

lemma decimal_2_zero: "decimal_2 0 = 0"
  using decimal_2_cents [of 0] by simp

lemma cents_fixed:
  assumes "x * 100 = real_of_int k" and "\<bar>x\<bar> < 10 ^ 10"
  shows "decimal_2 x = x"
proof -
  have x: "x = real_of_int k / 100" using assms(1) by simp
  show ?thesis using assms(2) unfolding x by (rule decimal_2_cents)
qed

lemma is_decimal_12_2_fixed: "is_decimal_12_2 x \<Longrightarrow> decimal_2 x = x"
  unfolding is_decimal_12_2_def by (metis cents_fixed)



text \<open>The prize is a whole number of cents, not negative when the bet and the RTP are
  not. At RTP 95 the multiplier is the base multiplier, and the columns keep it, and the
  prize of an accepted bet, as they are.\<close>

lemma prize_grid:
  obtains n where "snd (calculateScratchPrize r betAmount rtp) = real_of_int n / 100"
  unfolding calculateScratchPrize_spec computePrize_spec_def Let_def snd_conv round2_double_def
  by blast

lemma prize_cents:
  assumes "\<bar>snd (calculateScratchPrize r betAmount rtp)\<bar> < 10 ^ 10"
  shows "decimal_2 (snd (calculateScratchPrize r betAmount rtp)) =
    snd (calculateScratchPrize r betAmount rtp)"
proof -
  obtain n where n: "snd (calculateScratchPrize r betAmount rtp) = real_of_int n / 100"
    by (rule prize_grid)
  show ?thesis using assms unfolding n by (rule decimal_2_cents)
qed

lemma multiplier_95_cents: "decimal_2 (fst (calculateScratchPrize r betAmount 95)) =
    fst (calculateScratchPrize r betAmount 95)"
proof -
  have "\<forall>m \<in> {0, 1, 2, 5, 10}. decimal_2 m = m" by code_simp
  moreover have "fst (calculateScratchPrize r betAmount 95) \<in> {0, 1, 2, 5, 10}"
    unfolding multiplier_at_95 by (rule baseMultiplier_spec_cases)
  ultimately show ?thesis by blast
qed

lemma round2_double_nonneg: "0 \<le> x \<Longrightarrow> 0 \<le> round2_double x"
proof -
  assume "0 \<le> x"
  then have "0 \<le> x * 100" by simp
  then have "0 \<le> to_double (x * 100)" by (rule to_double_nonneg)
  then show ?thesis by (simp add: round2_double_def)
qed

lemma prize_nonneg:
  assumes "0 \<le> betAmount" and "0 \<le> rtp"
  shows "0 \<le> snd (calculateScratchPrize random betAmount rtp)"
proof -
  have "0 \<le> rtp / 95.0" using assms(2) by simp
  then have factor: "0 \<le> to_double (rtp / 95.0)" by (rule to_double_nonneg)
  have "0 \<le> baseMultiplier_spec r t1 t2 t3 t4 * to_double (rtp / 95.0)" for r t1 t2 t3 t4
    using baseMultiplier_spec_nonneg factor by (rule mult_nonneg_nonneg)
  then have adjusted:
    "0 \<le> to_double (baseMultiplier_spec r t1 t2 t3 t4 * to_double (rtp / 95.0))"
    for r t1 t2 t3 t4
    by (rule to_double_nonneg)
  have "0 \<le> betAmount *
      to_double (baseMultiplier_spec r t1 t2 t3 t4 * to_double (rtp / 95.0))"
    for r t1 t2 t3 t4
    using assms(1) adjusted by (rule mult_nonneg_nonneg)
  then have "0 \<le> to_double (betAmount *
      to_double (baseMultiplier_spec r t1 t2 t3 t4 * to_double (rtp / 95.0)))"
    for r t1 t2 t3 t4
    by (rule to_double_nonneg)
  then have "0 \<le> round2_double (to_double (betAmount *
      to_double (baseMultiplier_spec r t1 t2 t3 t4 * to_double (rtp / 95.0))))"
    for r t1 t2 t3 t4
    by (rule round2_double_nonneg)
  then show ?thesis
    unfolding calculateScratchPrize_spec computePrize_spec_def Let_def snd_conv .
qed

lemma prize_95_bounded:
  assumes "toFixed_2 betAmount \<in> set ALLOWED_BETS"
  shows "snd (calculateScratchPrize r betAmount 95) < 10 ^ 10"
proof -
  define m where "m = fst (calculateScratchPrize r betAmount 95)"
  have "m \<in> {0, 1, 2, 5, 10}"
    unfolding m_def multiplier_at_95 by (rule baseMultiplier_spec_cases)
  then have m: "0 \<le> m" "m \<le> 10" by auto
  have bet: "0 < betAmount" "betAmount < 5001 / 100"
    using assms by (rule allowed_bet_positive, rule allowed_bet_upper)
  have p: "snd (calculateScratchPrize r betAmount 95) =
      round2_double (to_double (betAmount * m))"
    unfolding m_def
    by (simp add: calculateScratchPrize_spec computePrize_spec_def Let_def)
  have "betAmount * m \<le> 5001 / 100 * 10"
    using m bet by (intro mult_mono) simp_all
  then have prod: "0 \<le> betAmount * m" "betAmount * m < 2 ^ 44"
    using m bet by simp_all
  have "to_double (betAmount * m) \<le> betAmount * m + 1 / 1024"
    using prod by (rule to_double_upper)
  with \<open>betAmount * m \<le> 5001 / 100 * 10\<close>
  have y: "to_double (betAmount * m) \<le> 501" by simp
  have y0: "0 \<le> to_double (betAmount * m)" using prod(1) by (rule to_double_nonneg)
  have scaled: "0 \<le> to_double (betAmount * m) * 100" "to_double (betAmount * m) * 100 < 2 ^ 44"
    using y y0 by simp_all
  have "to_double (to_double (betAmount * m) * 100)
      \<le> to_double (betAmount * m) * 100 + 1 / 1024"
    using scaled by (rule to_double_upper)
  with y have "to_double (to_double (betAmount * m) * 100) + 1 / 2 \<le> 50101" by simp
  then have "real_of_int \<lfloor>to_double (to_double (betAmount * m) * 100) + 1 / 2\<rfloor> \<le> 50101"
    by (metis floor_mono floor_numeral of_int_le_iff of_int_numeral)
  then show ?thesis unfolding p round2_double_def by simp
qed

lemma prize_95_cents:
  assumes "toFixed_2 betAmount \<in> set ALLOWED_BETS"
  shows "decimal_2 (snd (calculateScratchPrize r betAmount 95)) =
    snd (calculateScratchPrize r betAmount 95)"
proof -
  have "0 \<le> snd (calculateScratchPrize r betAmount 95)"
    using allowed_bet_positive [OF assms] by (intro prize_nonneg) simp_all
  moreover have "snd (calculateScratchPrize r betAmount 95) < 10 ^ 10"
    using assms by (rule prize_95_bounded)
  ultimately have "\<bar>snd (calculateScratchPrize r betAmount 95)\<bar> < 10 ^ 10" by simp
  then show ?thesis by (rule prize_cents)
qed

section \<open>Properties of round settlement\<close>

lemma playScratchCard_failure_state:
  "playScratchCard parseFloat random fault s userId betAmount = (Inl e, s', sent) \<Longrightarrow> s' = s"
  by (auto simp: playScratchCard_def split: if_splits prod.splits sum.splits)

lemma playScratchCard_failure_sent:
  assumes "playScratchCard parseFloat random fault s userId betAmount = (Inl e, s', sent)"
  shows "(e = InvalidBet \<longrightarrow> sent = []) \<and>
         (e = NotFound \<or> e = InsufficientFunds \<longrightarrow>
            sent = [CONNECT, BEGIN, SELECT_USER_FOR_UPDATE userId, ROLLBACK, RELEASE]) \<and>
         (BEGIN \<in> set sent \<longrightarrow> ROLLBACK \<in> set sent)"
  using assms
  by (auto simp: playScratchCard_def scratchTransaction_def Let_def split_beta
      split: if_splits option.splits)

text \<open>A call succeeds exactly when the bet is allowed, no statement fails, the user exists
  and the balance covers the bet; its result, committed state and statements are then these.\<close>

lemma playScratchCard_success:
  "playScratchCard parseFloat random fault s userId betAmount = (Inr res, s', sent) \<longleftrightarrow>
   toFixed_2 betAmount \<in> set ALLOWED_BETS \<and> fault = None \<and>
   (\<exists>user. users s userId = Some user \<and> betAmount \<le> balance user \<and>
     (let rtp = configuredRtp parseFloat s;
          m = fst (calculateScratchPrize random betAmount rtp);
          p = snd (calculateScratchPrize random betAmount rtp);
          newBalance = balance user - betAmount + p;
          newRollover = max 0 (rollover_required user - betAmount);
          round = \<lparr>user_id = userId, game_type = ''scratch_card'',
                   bet_amount = betAmount, prize_amount = p,
                   multiplier = m, result_data = rtp\<rparr>
      in res = \<lparr>res_success = True, res_prize = p, res_finalBalance = newBalance,
                 res_multiplier = m, res_betAmount = betAmount\<rparr> \<and>
         s' = s\<lparr>users := (users s)(userId \<mapsto>
                   user\<lparr>balance := decimal_2 newBalance,
                        rollover_required := decimal_2 newRollover\<rparr>),
                 game_rounds := game_rounds s @ [stored_round round]\<rparr> \<and>
         sent = [CONNECT, BEGIN, SELECT_USER_FOR_UPDATE userId,
                 SELECT_SETTING ''rtp_percentage'',
                 UPDATE_USER userId newBalance newRollover,
                 INSERT_GAME_ROUND round, COMMIT, RELEASE]))"
proof (cases fault)
  case None
  then show ?thesis
    by (auto simp: playScratchCard_def scratchTransaction_def Let_def split_beta
        split: option.splits)
next
  case (Some st)
  then show ?thesis
    by (cases st)
      (auto simp: playScratchCard_def scratchTransaction_def Let_def split_beta
        split: option.splits)
qed

subsection \<open>Rounds on the example ledger\<close>

text \<open>The prize engine on the draws and bets of the examples.\<close>

lemma engine_alice: "calculateScratchPrize 0.25 10 90 = (to_double (90 / 95), 9.47)"
  by code_simp


lemma engine_offgrid_95: "calculateScratchPrize 0.015625 0.50390625 95 = (10, 5.04)"
  by code_simp

lemma stored_multipliers:
  "decimal_2 (to_double (90 / 95)) = 0.95"
  "decimal_2 (to_double (10 * to_double (90 / 95))) = 9.47"
  by code_simp+


text \<open>What the columns keep of the amounts of the examples.\<close>

lemma stored_amounts:
  "decimal_2 0 = 0"
  "decimal_2 10 = 10"
  "decimal_2 490 = 490"
  "decimal_2 (947 / 100) = 947 / 100"
  "decimal_2 (49947 / 100) = 49947 / 100"
  "decimal_2 (477 / 100) = 477 / 100"
  "decimal_2 (126 / 25) = 126 / 25"
  "decimal_2 (129 / 256) = 1 / 2"
  "decimal_2 (3227303 / 6400) = 50427 / 100"
  "decimal_2 (127871 / 256) = 999 / 2"
  "decimal_2 (35431 / 6400) = 277 / 50"
  by code_simp+

lemmas play_defs = playScratchCard_def scratchTransaction_def configuredRtp_def getSetting_def
  toFixed_2_def ALLOWED_BETS_def stored_amounts stored_round_def
  parseFloat_digits_def Let_def example_db_def alice_def bob_def

text \<open>\<open>alice\<close> bets 10.00 and the draw 0.25 falls in the band of multiplier 1; at RTP 90
  the prize is 9.47, and the round is recorded with the multiplier 0.95.\<close>

lemma play_alice:
  "playScratchCard parseFloat_digits 0.25 None example_db ''alice'' 10
   = (Inr \<lparr>res_success = True, res_prize = 9.47, res_finalBalance = 499.47,
           res_multiplier = to_double (90 / 95), res_betAmount = 10\<rparr>,
      example_db\<lparr>users := (users example_db)(''alice'' \<mapsto>
                     alice\<lparr>balance := 499.47, rollover_required := 490\<rparr>),
                 game_rounds := [\<lparr>user_id = ''alice'', game_type = ''scratch_card'',
                    bet_amount = 10, prize_amount = 9.47, multiplier = 0.95,
                    result_data = 90\<rparr>]\<rparr>,
      [CONNECT, BEGIN, SELECT_USER_FOR_UPDATE ''alice'', SELECT_SETTING ''rtp_percentage'',
       UPDATE_USER ''alice'' 499.47 490,
       INSERT_GAME_ROUND \<lparr>user_id = ''alice'', game_type = ''scratch_card'',
                    bet_amount = 10, prize_amount = 9.47, multiplier = to_double (90 / 95),
                    result_data = 90\<rparr>, COMMIT, RELEASE])"
  by (simp add: play_defs engine_alice [simplified] stored_multipliers [simplified])

text \<open>The same round when \<^verbatim>\<open>COMMIT\<close> fails.\<close>

lemma play_commit_fails:
  "playScratchCard parseFloat_digits 0.25 (Some AtCommit) example_db ''alice'' 10
   = (Inl StorageFailure, example_db,
      [CONNECT, BEGIN, SELECT_USER_FOR_UPDATE ''alice'', SELECT_SETTING ''rtp_percentage'',
       UPDATE_USER ''alice'' 499.47 490,
       INSERT_GAME_ROUND \<lparr>user_id = ''alice'', game_type = ''scratch_card'',
                    bet_amount = 10, prize_amount = 9.47, multiplier = to_double (90 / 95),
                    result_data = 90\<rparr>, COMMIT, ROLLBACK, RELEASE])"
  by (simp add: play_defs engine_alice [simplified])


text \<open>\<open>bob\<close> bets 0.50390625 with no RTP configured, and the draw 0.015625 wins ten
  times the bet.\<close>

lemma play_unrounded:
  "playScratchCard parseFloat_digits 0.015625 None (example_db\<lparr>settings := Map.empty\<rparr>)
     ''bob'' 0.50390625
   = (Inr \<lparr>res_success = True, res_prize = 5.04, res_finalBalance = 5.53609375,
           res_multiplier = 10, res_betAmount = 0.50390625\<rparr>,
      example_db\<lparr>users := (users example_db)(''bob'' \<mapsto>
                     bob\<lparr>balance := 5.54, rollover_required := 0\<rparr>),
                 game_rounds := [\<lparr>user_id = ''bob'', game_type = ''scratch_card'',
                    bet_amount = 0.50, prize_amount = 5.04, multiplier = 10,
                    result_data = 95\<rparr>], settings := Map.empty\<rparr>,
      [CONNECT, BEGIN, SELECT_USER_FOR_UPDATE ''bob'', SELECT_SETTING ''rtp_percentage'',
       UPDATE_USER ''bob'' 5.53609375 0,
       INSERT_GAME_ROUND \<lparr>user_id = ''bob'', game_type = ''scratch_card'',
                    bet_amount = 0.50390625, prize_amount = 5.04, multiplier = 10,
                    result_data = 95\<rparr>, COMMIT, RELEASE])"
  by (simp add: play_defs engine_offgrid_95 [simplified])

text \<open>
  Claim C1. For every committed round, from a state where the user's balance and rollover
  are not negative and with a configured RTP that is not negative, the committed balance and
  rollover of the user are not negative and the rollover is at most what it was. (A round
  commits only for an allowed bet that the balance covers.)
\<close>

theorem round_keeps_ledger_nonnegative:
  assumes "playScratchCard parseFloat random fault s userId betAmount = (Inr res, s', sent)"
    and "users s userId = Some user"
    and "0 \<le> balance user" and "0 \<le> rollover_required user"
    and "0 \<le> configuredRtp parseFloat s"
  shows "\<exists>user'. users s' userId = Some user' \<and> 0 \<le> balance user' \<and>
           0 \<le> rollover_required user' \<and> rollover_required user' \<le> rollover_required user"
proof -
  let ?p = "snd (calculateScratchPrize random betAmount (configuredRtp parseFloat s))"
  let ?b = "balance user - betAmount + ?p"
  let ?r = "max 0 (rollover_required user - betAmount)"
  from assms(1) have ok: "toFixed_2 betAmount \<in> set ALLOWED_BETS"
    and bal: "betAmount \<le> balance user"
    and s': "users s' userId =
               Some (user\<lparr>balance := decimal_2 ?b, rollover_required := decimal_2 ?r\<rparr>)"
    using assms(2) by (auto simp: playScratchCard_success Let_def)
  have low: "99 / 200 \<le> betAmount" using ok by (rule allowed_bet_lower_bound)
  then have "0 \<le> ?p" using assms(5) by (intro prize_nonneg) simp_all
  with bal have "0 \<le> ?b" by simp
  then have b: "0 \<le> decimal_2 ?b" by (rule decimal_2_nonneg)
  have r0: "0 \<le> decimal_2 ?r" by (rule decimal_2_nonneg) simp
  have r1: "decimal_2 ?r \<le> rollover_required user"
  proof (cases "rollover_required user \<le> betAmount")
    case True
    then have "?r = 0" by simp
    then show ?thesis using assms(4) by (simp add: decimal_2_zero)
  next
    case False
    have "decimal_2 ?r \<le> ?r + 1 / 100" by (rule decimal_2_upper) simp
    also have "\<dots> = rollover_required user - betAmount + 1 / 100" using False by simp
    also have "\<dots> \<le> rollover_required user" using low by simp
    finally show ?thesis .
  qed
  from s' b r0 r1 show ?thesis by simp
qed

theorem round_keeps_ledger_nonnegative_witness:
  "playScratchCard parseFloat_digits 0.25 None example_db ''alice'' 10
   = (Inr \<lparr>res_success = True, res_prize = 9.47, res_finalBalance = 499.47,
           res_multiplier = to_double (90 / 95), res_betAmount = 10\<rparr>,
      example_db\<lparr>users := (users example_db)(''alice'' \<mapsto>
                     alice\<lparr>balance := 499.47, rollover_required := 490\<rparr>),
                 game_rounds := [\<lparr>user_id = ''alice'', game_type = ''scratch_card'',
                    bet_amount = 10, prize_amount = 9.47, multiplier = 0.95,
                    result_data = 90\<rparr>]\<rparr>,
      [CONNECT, BEGIN, SELECT_USER_FOR_UPDATE ''alice'', SELECT_SETTING ''rtp_percentage'',
       UPDATE_USER ''alice'' 499.47 490,
       INSERT_GAME_ROUND \<lparr>user_id = ''alice'', game_type = ''scratch_card'',
                    bet_amount = 10, prize_amount = 9.47, multiplier = to_double (90 / 95),
                    result_data = 90\<rparr>, COMMIT, RELEASE])
   \<and> users example_db ''alice'' = Some alice
   \<and> 0 \<le> balance alice \<and> 0 \<le> rollover_required alice
   \<and> 0 \<le> configuredRtp parseFloat_digits example_db
   \<and> (\<exists>user'. users (example_db\<lparr>users := (users example_db)(''alice'' \<mapsto>
                     alice\<lparr>balance := 499.47, rollover_required := 490\<rparr>),
                 game_rounds := [\<lparr>user_id = ''alice'', game_type = ''scratch_card'',
                    bet_amount = 10, prize_amount = 9.47, multiplier = 0.95,
                    result_data = 90\<rparr>]\<rparr>) ''alice'' = Some user' \<and>
          0 \<le> balance user' \<and> 0 \<le> rollover_required user' \<and>
          rollover_required user' \<le> rollover_required alice)"
proof -
  have u: "users example_db ''alice'' = Some alice" by (simp add: example_db_def)
  have b: "0 \<le> balance alice" and r: "0 \<le> rollover_required alice"
    by (simp_all add: alice_def)
  have c: "0 \<le> configuredRtp parseFloat_digits example_db"
    by (simp add: configuredRtp_def getSetting_def parseFloat_digits_def example_db_def)
  show ?thesis
    using round_keeps_ledger_nonnegative [OF play_alice u b r c] play_alice u b r c
    by simp
qed

text \<open>
  Claim C3, as amended. Every call that fails, with any of the four errors and whichever
  step failed, leaves the whole committed state as it was: the balance and the rollover of
  the user are unchanged and no game round is recorded. Only the bet check comes before
  the transaction: a call that fails with \<open>InvalidBet\<close> sends nothing to the store. A
  call that fails with \<open>NotFound\<close> or \<open>InsufficientFunds\<close> has begun the transaction
  and read the user's row under its lock, and then rolls back; every failing call that began
  a transaction rolls it back.
\<close>

theorem failed_round_leaves_ledger_unchanged:
  assumes "playScratchCard parseFloat random fault s userId betAmount = (Inl e, s', sent)"
  shows "s' = s \<and>
         (e = InvalidBet \<longrightarrow> sent = []) \<and>
         (e = NotFound \<or> e = InsufficientFunds \<longrightarrow>
            sent = [CONNECT, BEGIN, SELECT_USER_FOR_UPDATE userId, ROLLBACK, RELEASE]) \<and>
         (BEGIN \<in> set sent \<longrightarrow> ROLLBACK \<in> set sent)"
  using playScratchCard_failure_state [OF assms] playScratchCard_failure_sent [OF assms]
  by blast

theorem failed_round_leaves_ledger_unchanged_witness:
  "playScratchCard parseFloat_digits 0.25 (Some AtCommit) example_db ''alice'' 10
   = (Inl StorageFailure, example_db,
      [CONNECT, BEGIN, SELECT_USER_FOR_UPDATE ''alice'', SELECT_SETTING ''rtp_percentage'',
       UPDATE_USER ''alice'' 499.47 490,
       INSERT_GAME_ROUND \<lparr>user_id = ''alice'', game_type = ''scratch_card'',
                    bet_amount = 10, prize_amount = 9.47, multiplier = to_double (90 / 95),
                    result_data = 90\<rparr>, COMMIT, ROLLBACK, RELEASE])
   \<and> users example_db ''alice'' = Some alice \<and> game_rounds example_db = []"
  using play_commit_fails failed_round_leaves_ledger_unchanged [OF play_commit_fails]
  by (simp add: example_db_def)

text \<open>
  The claim as first worded has all three validation failures detected before the
  transaction begins, without the row lock and without touching the store. A bet by the
  missing user \<open>carol\<close> fails with \<open>NotFound\<close> after \<^verbatim>\<open>BEGIN\<close> and the locking
  \<^verbatim>\<open>SELECT ... FOR UPDATE\<close>.
\<close>

theorem not_found_is_detected_under_the_lock:
  "playScratchCard parseFloat_digits 0.25 None example_db ''carol'' 10
     = (Inl NotFound, example_db,
        [CONNECT, BEGIN, SELECT_USER_FOR_UPDATE ''carol'', ROLLBACK, RELEASE])"
  by (simp add: play_defs)

text \<open>
  Claim C6. When the connection, \<^verbatim>\<open>BEGIN\<close> and the locking read succeed: the call fails
  with \<open>InvalidBet\<close> exactly when the bet, rounded half-up to the cent, is not an allowed
  value; otherwise it fails with \<open>NotFound\<close> exactly when the user does not exist;
  otherwise it fails with \<open>InsufficientFunds\<close> exactly when the balance is strictly
  below the bet. (The first equivalence needs no assumption on the store.)
\<close>

theorem validation_order:
  assumes "fault \<noteq> Some AtConnect" and "fault \<noteq> Some AtBegin" and "fault \<noteq> Some AtSelect"
  shows "(fst (playScratchCard parseFloat random fault s userId betAmount) = Inl InvalidBet
            \<longleftrightarrow> round2_spec betAmount \<notin> set ALLOWED_BETS) \<and>
         (round2_spec betAmount \<in> set ALLOWED_BETS \<longrightarrow>
            (fst (playScratchCard parseFloat random fault s userId betAmount) = Inl NotFound
               \<longleftrightarrow> users s userId = None)) \<and>
         (round2_spec betAmount \<in> set ALLOWED_BETS \<longrightarrow>
            (\<forall>user. users s userId = Some user \<longrightarrow>
               (fst (playScratchCard parseFloat random fault s userId betAmount)
                  = Inl InsufficientFunds \<longleftrightarrow> balance user < betAmount)))"
  using assms unfolding toFixed_2_allowed_iff [symmetric]
  by (auto simp: playScratchCard_def scratchTransaction_def Let_def split_beta
      split: if_splits option.splits)

theorem validation_order_witness:
  "None \<noteq> Some AtConnect \<and> None \<noteq> Some AtBegin \<and> None \<noteq> Some AtSelect \<and>
   round2_spec 10 \<in> set ALLOWED_BETS \<and> users example_db ''bob'' = Some bob \<and>
   balance bob < 10 \<and>
   fst (playScratchCard parseFloat_digits 0.25 None example_db ''bob'' 10)
     = Inl InsufficientFunds \<and>
   users example_db ''carol'' = None \<and>
   fst (playScratchCard parseFloat_digits 0.25 None example_db ''carol'' 10) = Inl NotFound \<and>
   round2_spec 0.75 \<notin> set ALLOWED_BETS \<and>
   fst (playScratchCard parseFloat_digits 0.25 None example_db ''carol'' 0.75) = Inl InvalidBet"
  using validation_order [of None parseFloat_digits "0.25" example_db "''bob''" 10]
    validation_order [of None parseFloat_digits "0.25" example_db "''carol''" 10]
    validation_order [of None parseFloat_digits "0.25" example_db "''carol''" "0.75"]
  by (simp add: round2_spec_def ALLOWED_BETS_def example_db_def bob_def)




text \<open>
  Claim C8. When the lookup of \<^verbatim>\<open>rtp_percentage\<close> gives \<^verbatim>\<open>null\<close>, a round computes its
  prize with the RTP 95.0: the multiplier and the prize returned, and those of the game
  round recorded, are the prize engine's at 95.0, whatever \<^verbatim>\<open>parseFloat\<close> is.
\<close>

theorem null_rtp_defaults_to_95:
  assumes "getSetting s ''rtp_percentage'' = None"
    and "playScratchCard parseFloat random fault s userId betAmount = (Inr res, s', sent)"
  shows "res_multiplier res = fst (calculateScratchPrize random betAmount 95.0) \<and>
         res_prize res = snd (calculateScratchPrize random betAmount 95.0) \<and>
         game_rounds s' = game_rounds s @
             [\<lparr>user_id = userId, game_type = ''scratch_card'',
               bet_amount = decimal_2 betAmount,
               prize_amount = snd (calculateScratchPrize random betAmount 95.0),
               multiplier = fst (calculateScratchPrize random betAmount 95.0),
               result_data = 95.0\<rparr>]"
  using assms
  by (auto simp: playScratchCard_success Let_def configuredRtp_def stored_round_def
      prize_95_cents multiplier_95_cents)

theorem null_rtp_defaults_to_95_witness:
  "getSetting (example_db\<lparr>settings := Map.empty\<rparr>) ''rtp_percentage'' = None \<and>
   playScratchCard parseFloat_digits 0.015625 None (example_db\<lparr>settings := Map.empty\<rparr>)
     ''bob'' 0.50390625
   = (Inr \<lparr>res_success = True, res_prize = 5.04, res_finalBalance = 5.53609375,
           res_multiplier = 10, res_betAmount = 0.50390625\<rparr>,
      example_db\<lparr>users := (users example_db)(''bob'' \<mapsto>
                     bob\<lparr>balance := 5.54, rollover_required := 0\<rparr>),
                 game_rounds := [\<lparr>user_id = ''bob'', game_type = ''scratch_card'',
                    bet_amount = 0.50, prize_amount = 5.04, multiplier = 10,
                    result_data = 95\<rparr>], settings := Map.empty\<rparr>,
      [CONNECT, BEGIN, SELECT_USER_FOR_UPDATE ''bob'', SELECT_SETTING ''rtp_percentage'',
       UPDATE_USER ''bob'' 5.53609375 0,
       INSERT_GAME_ROUND \<lparr>user_id = ''bob'', game_type = ''scratch_card'',
                    bet_amount = 0.50390625, prize_amount = 5.04, multiplier = 10,
                    result_data = 95\<rparr>, COMMIT, RELEASE])
   \<and> calculateScratchPrize 0.015625 0.50390625 95.0 = (10, 5.04)"
proof -
  have g: "getSetting (example_db\<lparr>settings := Map.empty\<rparr>) ''rtp_percentage'' = None"
    by (simp add: getSetting_def)
  have c: "calculateScratchPrize 0.015625 0.50390625 95.0 = (10, 5.04)"
    using engine_offgrid_95 by simp
  show ?thesis
    using null_rtp_defaults_to_95 [OF g play_unrounded] g play_unrounded c by simp
qed




section \<open>Properties of rollover activation\<close>

text \<open>The three cases of the conditional \<^verbatim>\<open>UPDATE\<close>.\<close>

lemma firstDepositUpdate_fresh:
  assumes "users s userId = Some user" and "first_deposit_made user = False"
  shows "firstDepositUpdate s userId amount =
           ([user\<lparr>rollover_required := rollover_required user + amount,
                   first_deposit_made := True\<rparr>],
            s\<lparr>users := (users s)(userId \<mapsto>
                 user\<lparr>rollover_required := rollover_required user + amount,
                      first_deposit_made := True\<rparr>)\<rparr>)"
  using assms by (simp add: firstDepositUpdate_def Let_def)

lemma firstDepositUpdate_done:
  assumes "users s userId = Some user" and "first_deposit_made user = True"
  shows "firstDepositUpdate s userId amount = ([], s)"
  using assms by (simp add: firstDepositUpdate_def)

lemma firstDepositUpdate_missing:
  assumes "users s userId = None"
  shows "firstDepositUpdate s userId amount = ([], s)"
  using assms by (simp add: firstDepositUpdate_def)

lemma applyFirstDepositRollover_no_fault:
  "applyFirstDepositRollover None s userId amount =
     (Inr (length (fst (firstDepositUpdate s userId amount)) > 0),
      snd (firstDepositUpdate s userId amount),
      [CONNECT, BEGIN, UPDATE_FIRST_DEPOSIT userId amount, COMMIT, RELEASE])"
  by (simp add: applyFirstDepositRollover_def split_beta)

text \<open>
  Claim C2. When no statement fails: for a user whose first deposit is not yet made, a
  first call with \<open>a1\<close> returns \<open>true\<close> and adds \<open>a1\<close> to the rollover, and a second call
  with any \<open>a2\<close> returns \<open>false\<close>, raises nothing and leaves the state of the first call
  as it is, so the rollover is increased once, by \<open>a1\<close>. In general a call for a user whose
  first deposit is already made returns \<open>false\<close> and changes nothing.
\<close>

theorem first_deposit_rollover_applied_once:
  "(users s userId = Some user \<and> first_deposit_made user = False \<longrightarrow>
      (let s1 = s\<lparr>users := (users s)(userId \<mapsto>
                    user\<lparr>rollover_required := rollover_required user + a1,
                         first_deposit_made := True\<rparr>)\<rparr>
       in applyFirstDepositRollover None s userId a1 =
            (Inr True, s1, [CONNECT, BEGIN, UPDATE_FIRST_DEPOSIT userId a1, COMMIT, RELEASE]) \<and>
          applyFirstDepositRollover None s1 userId a2 =
            (Inr False, s1, [CONNECT, BEGIN, UPDATE_FIRST_DEPOSIT userId a2, COMMIT, RELEASE]))) \<and>
   (users s userId = Some user \<and> first_deposit_made user = True \<longrightarrow>
      applyFirstDepositRollover None s userId a2 =
        (Inr False, s, [CONNECT, BEGIN, UPDATE_FIRST_DEPOSIT userId a2, COMMIT, RELEASE]))"
proof (intro conjI impI)
  assume fresh: "users s userId = Some user \<and> first_deposit_made user = False"
  define row where
    "row = user\<lparr>rollover_required := rollover_required user + a1, first_deposit_made := True\<rparr>"
  define s1 where "s1 = s\<lparr>users := (users s)(userId \<mapsto> row)\<rparr>"
  have first: "applyFirstDepositRollover None s userId a1 =
      (Inr True, s1, [CONNECT, BEGIN, UPDATE_FIRST_DEPOSIT userId a1, COMMIT, RELEASE])"
    using fresh
    by (simp add: applyFirstDepositRollover_no_fault firstDepositUpdate_fresh s1_def row_def)
  have "users s1 userId = Some row" and "first_deposit_made row = True"
    by (simp_all add: s1_def row_def)
  then have second: "applyFirstDepositRollover None s1 userId a2 =
      (Inr False, s1, [CONNECT, BEGIN, UPDATE_FIRST_DEPOSIT userId a2, COMMIT, RELEASE])"
    by (simp add: applyFirstDepositRollover_no_fault firstDepositUpdate_done)
  from first second
  show "let s1 = s\<lparr>users := (users s)(userId \<mapsto>
                    user\<lparr>rollover_required := rollover_required user + a1,
                         first_deposit_made := True\<rparr>)\<rparr>
       in applyFirstDepositRollover None s userId a1 =
            (Inr True, s1, [CONNECT, BEGIN, UPDATE_FIRST_DEPOSIT userId a1, COMMIT, RELEASE]) \<and>
          applyFirstDepositRollover None s1 userId a2 =
            (Inr False, s1, [CONNECT, BEGIN, UPDATE_FIRST_DEPOSIT userId a2, COMMIT, RELEASE])"
    unfolding Let_def s1_def row_def by (rule conjI)
next
  assume "users s userId = Some user \<and> first_deposit_made user = True"
  then show "applyFirstDepositRollover None s userId a2 =
      (Inr False, s, [CONNECT, BEGIN, UPDATE_FIRST_DEPOSIT userId a2, COMMIT, RELEASE])"
    by (simp add: applyFirstDepositRollover_no_fault firstDepositUpdate_done)
qed

theorem first_deposit_rollover_applied_once_witness:
  "users example_db ''bob'' = Some bob \<and> first_deposit_made bob = False \<and>
   applyFirstDepositRollover None example_db ''bob'' 500 =
     (Inr True,
      example_db\<lparr>users := (users example_db)(''bob'' \<mapsto>
         \<lparr>balance = 1, rollover_required = 500, first_deposit_made = True\<rparr>)\<rparr>,
      [CONNECT, BEGIN, UPDATE_FIRST_DEPOSIT ''bob'' 500, COMMIT, RELEASE]) \<and>
   applyFirstDepositRollover None
      (example_db\<lparr>users := (users example_db)(''bob'' \<mapsto>
         \<lparr>balance = 1, rollover_required = 500, first_deposit_made = True\<rparr>)\<rparr>) ''bob'' 200 =
     (Inr False,
      example_db\<lparr>users := (users example_db)(''bob'' \<mapsto>
         \<lparr>balance = 1, rollover_required = 500, first_deposit_made = True\<rparr>)\<rparr>,
      [CONNECT, BEGIN, UPDATE_FIRST_DEPOSIT ''bob'' 200, COMMIT, RELEASE]) \<and>
   users example_db ''alice'' = Some alice \<and> first_deposit_made alice = True \<and>
   applyFirstDepositRollover None example_db ''alice'' 200 =
     (Inr False, example_db,
      [CONNECT, BEGIN, UPDATE_FIRST_DEPOSIT ''alice'' 200, COMMIT, RELEASE])"
  using first_deposit_rollover_applied_once [of example_db "''bob''" bob 500 200]
    first_deposit_rollover_applied_once [of example_db "''alice''" alice 500 200]
  by (simp add: example_db_def alice_def bob_def Let_def)

text \<open>
  Claim C9. When no statement fails, a call for a user id that is not in the users table
  returns \<open>false\<close>, raises nothing and changes no state; the value returned is the one
  returned for a user whose first deposit is already made.
\<close>

theorem rollover_for_missing_user_returns_false:
  assumes "users s userId = None"
  shows "applyFirstDepositRollover None s userId amount =
           (Inr False, s, [CONNECT, BEGIN, UPDATE_FIRST_DEPOSIT userId amount, COMMIT, RELEASE]) \<and>
         (\<forall>t user. users t userId = Some user \<and> first_deposit_made user = True \<longrightarrow>
            fst (applyFirstDepositRollover None t userId amount) =
            fst (applyFirstDepositRollover None s userId amount))"
proof (intro conjI allI impI)
  show "applyFirstDepositRollover None s userId amount =
      (Inr False, s, [CONNECT, BEGIN, UPDATE_FIRST_DEPOSIT userId amount, COMMIT, RELEASE])"
    using assms by (simp add: applyFirstDepositRollover_no_fault firstDepositUpdate_missing)
next
  fix t :: db and user
  assume "users t userId = Some user \<and> first_deposit_made user = True"
  then have "fst (applyFirstDepositRollover None t userId amount) = Inr False"
    by (simp add: applyFirstDepositRollover_no_fault firstDepositUpdate_done)
  moreover have "fst (applyFirstDepositRollover None s userId amount) = Inr False"
    using assms by (simp add: applyFirstDepositRollover_no_fault firstDepositUpdate_missing)
  ultimately show "fst (applyFirstDepositRollover None t userId amount) =
      fst (applyFirstDepositRollover None s userId amount)"
    by simp
qed

theorem rollover_for_missing_user_returns_false_witness:
  "users example_db ''carol'' = None \<and>
   applyFirstDepositRollover None example_db ''carol'' 500 =
     (Inr False, example_db,
      [CONNECT, BEGIN, UPDATE_FIRST_DEPOSIT ''carol'' 500, COMMIT, RELEASE])"
proof -
  have h: "users example_db ''carol'' = None" by (simp add: example_db_def)
  show ?thesis using h rollover_for_missing_user_returns_false [OF h, of 500] by simp
qed

end
